theory Spec2Isabelle
  imports Main "HOL-Library.Word"
begin

section \<open>Connection information and channel names\<close>

text \<open>
  The four channel names of \<^verbatim>\<open>type ChannelName\<close> and the string each one stands for in
  the source (the type is a union of string literals).
\<close>

datatype ChannelName = iopub | stdin | shell | control

fun channel_string :: "ChannelName \<Rightarrow> string" where
  "channel_string iopub = ''iopub''"
| "channel_string stdin = ''stdin''"
| "channel_string shell = ''shell''"
| "channel_string control = ''control''"

subsection \<open>Numbers\<close>

text \<open>
  A port is a JavaScript number. The model has the integers from \<open>-2^53\<close> to \<open>2^53 - 1\<close>,
  each of which is a double that a template literal renders as its decimal numeral, and
  the values \<^verbatim>\<open>NaN\<close>, \<^verbatim>\<open>Infinity\<close> and \<^verbatim>\<open>-Infinity\<close>. An integer is a 54-bit word read as
  a signed number. Numbers with a fractional part and integers beyond this range are not
  in the model.
\<close>

datatype number = Integer "54 word" | NaN | Infinity | NegInfinity

text \<open>\<^verbatim>\<open>!n\<close> for a number: true for zero and for \<^verbatim>\<open>NaN\<close>.\<close>

fun number_falsy :: "number \<Rightarrow> bool" where
  "number_falsy (Integer w) = (w = 0)"
| "number_falsy NaN = True"
| "number_falsy Infinity = False"
| "number_falsy NegInfinity = False"

text \<open>\<^verbatim>\<open>`${n}`\<close>: the decimal numeral of an integer, with a minus sign when negative.\<close>

definition digit_char :: "nat \<Rightarrow> char" where
  "digit_char d = ''0123456789'' ! d"

function nat_toString :: "nat \<Rightarrow> string" where
  "nat_toString n =
     (if n < 10 then [digit_char n] else nat_toString (n div 10) @ [digit_char (n mod 10)])"
  by pat_completeness auto
termination
  by (relation "measure id") auto

declare nat_toString.simps [simp del]

definition int_toString :: "int \<Rightarrow> string" where
  "int_toString i =
     (if i < 0 then CHR ''-'' # nat_toString (nat (- i)) else nat_toString (nat i))"

fun number_toString :: "number \<Rightarrow> string" where
  "number_toString (Integer w) = int_toString (sint w)"
| "number_toString NaN = ''NaN''"
| "number_toString Infinity = ''Infinity''"
| "number_toString NegInfinity = ''-Infinity''"

subsection \<open>Connection information\<close>

text \<open>
  \<^verbatim>\<open>interface JupyterConnectionInfo\<close>. A port property holds a number, or is absent or
  \<^verbatim>\<open>undefined\<close> (\<open>None\<close>). The transport and the signature scheme are kept as the strings
  the source interpolates.
\<close>

record JupyterConnectionInfo =
  version :: int
  iopub_port :: "number option"
  shell_port :: "number option"
  stdin_port :: "number option"
  control_port :: "number option"
  signature_scheme :: string
  hb_port :: "number option"
  ip :: string
  key :: string
  transport :: string

text \<open>
  A thrown JavaScript value: \<^verbatim>\<open>new Error(message)\<close>, or the \<^verbatim>\<open>TypeError\<close> the engine throws
  when a value that is not a function is called.
\<close>

datatype exn = Error string | TypeError string

section \<open>Address resolver: \<^verbatim>\<open>formConnectionString\<close>\<close>

text \<open>\<^verbatim>\<open>config[`${channel}_port`]\<close>: the port property selected by the channel name.\<close>

fun channel_port :: "JupyterConnectionInfo \<Rightarrow> ChannelName \<Rightarrow> number option" where
  "channel_port config iopub = iopub_port config"
| "channel_port config stdin = stdin_port config"
| "channel_port config shell = shell_port config"
| "channel_port config control = control_port config"

text \<open>
  \<^verbatim>\<open>!port\<close> for a number or \<^verbatim>\<open>undefined\<close>: true when the port is absent, zero or
  \<^verbatim>\<open>NaN\<close>.
\<close>

definition port_falsy :: "number option \<Rightarrow> bool" where
  "port_falsy port = (case port of None \<Rightarrow> True | Some n \<Rightarrow> number_falsy n)"

definition port_not_found :: "ChannelName \<Rightarrow> exn" where
  "port_not_found chan =
     Error (''Port not found for channel '' @ [CHR 0x22] @ channel_string chan @ [CHR 0x22])"

definition formConnectionString :: "JupyterConnectionInfo \<Rightarrow> ChannelName \<Rightarrow> exn + string" where
  "formConnectionString config chan =
     (let portDelimiter = (if transport config = ''tcp'' then '':'' else ''-'');
          port = channel_port config chan
      in if port_falsy port then Inl (port_not_found chan)
         else Inr (transport config @ ''://'' @ ip config @ portDelimiter
                     @ number_toString (the port)))"

section \<open>Messages\<close>

text \<open>
  JavaScript values carried in message fields. An object that the source spreads or
  deletes from is a finite map from property names to values.
\<close>

datatype jsval =
    JUndefined
  | JNull
  | JBool bool
  | JNum int
  | JStr string
  | JArr "jsval list"
  | JObj "(string \<times> jsval) list"

type_synonym jsobj = "string \<rightharpoonup> jsval"

text \<open>\<^verbatim>\<open>interface HeaderFiller\<close>, and the properties it contributes to a spread.\<close>

record HeaderFiller =
  session :: string
  username :: string

definition spread_HeaderFiller :: "HeaderFiller \<Rightarrow> jsobj" where
  "spread_HeaderFiller h = [''session'' \<mapsto> JStr (session h), ''username'' \<mapsto> JStr (username h)]"

text \<open>
  The object literal given to \<^verbatim>\<open>new jmp.Message(...)\<close> has the five properties of
  \<open>MessageProperties\<close>. The \<^verbatim>\<open>jmp.Message\<close> built from it is represented by these
  properties. A \<open>JupyterMessage\<close> presented to the sink has the same properties and a
  channel tag, which may be missing.
\<close>

record MessageProperties =
  header :: jsobj
  parent_header :: jsval
  content :: jsval
  metadata :: jsval
  buffers :: jsval

record JupyterMessage = MessageProperties +
  channel :: "string option"

section \<open>Calls on the external collaborators\<close>

text \<open>
  Sockets are objects with identity: a socket is named by a reference, and what the
  program does to it is recorded as the sequence of calls it makes, in order. Console
  output is recorded the same way.
\<close>

type_synonym sock = nat

datatype event =
    SocketNew sock string string string
  | SetIdentity sock string
  | SocketOn sock string
  | SocketOff sock string
  | Monitor sock
  | Unmonitor sock
  | Connect sock string
  | Subscribe sock string
  | MessageNew MessageProperties
  | Send sock MessageProperties
  | RemoveAllListeners sock
  | Close sock
  | ConsoleWarn string "JupyterMessage option"
  | ConsoleError string exn JupyterMessage

text \<open>
  The \<^verbatim>\<open>jmp\<close> module is a parameter of the source functions. Its reactions are taken as
  parameters here: whether a constructor throws, whether \<^verbatim>\<open>socket.send\<close> throws (which
  may depend on all calls made so far), and whether a socket has a \<^verbatim>\<open>close\<close> property.
  The other socket methods are taken to return normally.
\<close>

record jmp =
  Socket_throws :: "string \<Rightarrow> string \<Rightarrow> string \<Rightarrow> exn option"
  Message_throws :: "MessageProperties \<Rightarrow> exn option"
  send_throws :: "event list \<Rightarrow> sock \<Rightarrow> MessageProperties \<Rightarrow> exn option"
  has_close :: "sock \<Rightarrow> bool"

section \<open>Channel socket factory\<close>

fun ZMQType_frontend :: "ChannelName \<Rightarrow> string" where
  "ZMQType_frontend iopub = ''sub''"
| "ZMQType_frontend stdin = ''dealer''"
| "ZMQType_frontend shell = ''dealer''"
| "ZMQType_frontend control = ''dealer''"

fun is_SocketNew :: "event \<Rightarrow> bool" where
  "is_SocketNew (SocketNew _ _ _ _) = True"
| "is_SocketNew _ = False"

text \<open>The reference of the next socket object: the number of sockets constructed so far.\<close>

definition fresh_sock :: "event list \<Rightarrow> sock" where
  "fresh_sock tr = length (filter is_SocketNew tr)"

text \<open>
  \<^verbatim>\<open>verifiedConnect\<close> registers the connect listener, starts monitoring and connects. The
  promise it returns is pending until the socket emits \<^verbatim>\<open>"connect"\<close>; the result \<open>Inr socket\<close>
  stands for that promise. \<open>on_connect\<close> is the listener.
\<close>

definition verifiedConnect :: "sock \<Rightarrow> string \<Rightarrow> event list \<Rightarrow> event list \<times> (exn + sock)" where
  "verifiedConnect socket url tr =
     (tr @ [SocketOn socket ''connect'', Monitor socket, Connect socket url], Inr socket)"

definition on_connect :: "sock \<Rightarrow> event list \<Rightarrow> event list" where
  "on_connect socket tr = tr @ [Unmonitor socket]"

text \<open>
  \<^verbatim>\<open>createSocket\<close> takes the calls made so far and returns them extended, with \<open>Inl\<close> for a
  synchronous throw. \<open>scheme_of\<close> is \<^verbatim>\<open>config.signature_scheme.slice("hmac-".length)\<close>.
\<close>

definition scheme_of :: "JupyterConnectionInfo \<Rightarrow> string" where
  "scheme_of config = drop (length ''hmac-'') (signature_scheme config)"

definition createSocket ::
  "jmp \<Rightarrow> ChannelName \<Rightarrow> string \<Rightarrow> JupyterConnectionInfo \<Rightarrow> event list
     \<Rightarrow> event list \<times> (exn + sock)" where
  "createSocket j chan identity config tr =
     (let zmqType = ZMQType_frontend chan;
          scheme = scheme_of config
      in case Socket_throws j zmqType scheme (key config) of
           Some err \<Rightarrow> (tr, Inl err)
         | None \<Rightarrow>
             (let socket = fresh_sock tr;
                  tr1 = tr @ [SocketNew socket zmqType scheme (key config),
                              SetIdentity socket identity]
              in case formConnectionString config chan of
                   Inl err \<Rightarrow> (tr1, Inl err)
                 | Inr url \<Rightarrow> verifiedConnect socket url tr1))"

text \<open>
  \<^verbatim>\<open>createSockets\<close> up to its \<^verbatim>\<open>await\<close>: the four calls of \<^verbatim>\<open>createSocket\<close> in the order of
  the array literal, the first throw ending the function. \<open>Inr\<close> holds the object the
  function returns once all four promises have resolved. \<open>createSockets_resume\<close> is what runs
  after the \<^verbatim>\<open>await\<close>: the subscription of the iopub socket.
\<close>

definition createSockets_begin ::
  "jmp \<Rightarrow> JupyterConnectionInfo \<Rightarrow> string \<Rightarrow> event list
     \<Rightarrow> event list \<times> (exn + (string \<times> sock) list)" where
  "createSockets_begin j config identity tr =
     (case createSocket j shell identity config tr of
        (tr1, Inl err) \<Rightarrow> (tr1, Inl err)
      | (tr1, Inr s1) \<Rightarrow>
     (case createSocket j control identity config tr1 of
        (tr2, Inl err) \<Rightarrow> (tr2, Inl err)
      | (tr2, Inr s2) \<Rightarrow>
     (case createSocket j stdin identity config tr2 of
        (tr3, Inl err) \<Rightarrow> (tr3, Inl err)
      | (tr3, Inr s3) \<Rightarrow>
     (case createSocket j iopub identity config tr3 of
        (tr4, Inl err) \<Rightarrow> (tr4, Inl err)
      | (tr4, Inr s4) \<Rightarrow>
          (tr4, Inr [(''shell'', s1), (''control'', s2), (''stdin'', s3), (''iopub'', s4)])))))"

definition createSockets_resume ::
  "string \<Rightarrow> (string \<times> sock) list \<Rightarrow> event list \<Rightarrow> event list" where
  "createSockets_resume subscription socks tr =
     (case map_of socks ''iopub'' of
        None \<Rightarrow> tr
      | Some s4 \<Rightarrow> tr @ [Subscribe s4 subscription])"

section \<open>Channel multiplexer: \<^verbatim>\<open>createMainChannelFromSockets\<close>\<close>

text \<open>
  The \<^verbatim>\<open>sockets\<close> object: its own keys in \<^verbatim>\<open>Object.keys\<close> order, each with the socket it
  holds. The object is a plain one, as the object literal of \<^verbatim>\<open>createSockets\<close> makes it, so
  a name that is not an own key is looked up on \<^verbatim>\<open>Object.prototype\<close>: \<^verbatim>\<open>sockets[name]\<close> is
  the socket held under an own key, a function or object inherited from the prototype
  (which is truthy and has no \<^verbatim>\<open>send\<close>), or \<^verbatim>\<open>undefined\<close>.
\<close>

type_synonym sockets = "(string \<times> sock) list"

definition Object_prototype :: "string list" where
  "Object_prototype =
     [''constructor'', ''__defineGetter__'', ''__defineSetter__'', ''hasOwnProperty'',
      ''__lookupGetter__'', ''__lookupSetter__'', ''isPrototypeOf'', ''propertyIsEnumerable'',
      ''toString'', ''valueOf'', ''__proto__'', ''toLocaleString'']"

datatype property = Socket sock | Inherited | Undefined

definition sockets_get :: "sockets \<Rightarrow> string \<Rightarrow> property" where
  "sockets_get socks name =
     (case map_of socks name of
        Some socket \<Rightarrow> Socket socket
      | None \<Rightarrow> if name \<in> set Object_prototype then Inherited else Undefined)"

subsection \<open>Outbound path\<close>

text \<open>\<^verbatim>\<open>!message.channel\<close>: the tag is missing or the empty string.\<close>

definition channel_falsy :: "string option \<Rightarrow> bool" where
  "channel_falsy c = (case c of None \<Rightarrow> True | Some s \<Rightarrow> s = [])"

text \<open>The argument of \<^verbatim>\<open>new jmp.Message\<close>; \<open>m ++ n\<close> is the spread of \<open>m\<close>, then of \<open>n\<close>.\<close>

definition jMessage_properties :: "HeaderFiller \<Rightarrow> JupyterMessage \<Rightarrow> MessageProperties" where
  "jMessage_properties hdr message =
     \<lparr> header = header message ++ spread_HeaderFiller hdr,
       parent_header = parent_header message,
       content = content message,
       metadata = metadata message,
       buffers = buffers message \<rparr>"

text \<open>
  The \<^verbatim>\<open>next\<close> handler of \<^verbatim>\<open>outgoingMessages\<close>: the calls it makes for one value, given
  the calls made before. \<open>None\<close> is a value that is \<^verbatim>\<open>null\<close> or \<^verbatim>\<open>undefined\<close>. When
  \<^verbatim>\<open>sockets[message.channel]\<close> is an inherited value, the message is constructed and the call
  of \<^verbatim>\<open>socket.send\<close> throws a \<^verbatim>\<open>TypeError\<close> inside the \<^verbatim>\<open>try\<close> block: no socket is reached.
\<close>

definition send_not_a_function :: exn where
  "send_not_a_function = TypeError ''socket.send is not a function''"

definition outgoing_next ::
  "jmp \<Rightarrow> sockets \<Rightarrow> HeaderFiller \<Rightarrow> event list \<Rightarrow> JupyterMessage option \<Rightarrow> event list" where
  "outgoing_next j socks hdr tr message =
     (case message of
        None \<Rightarrow> [ConsoleWarn ''message sent without a channel'' message]
      | Some m \<Rightarrow>
          if channel_falsy (channel m)
          then [ConsoleWarn ''message sent without a channel'' message]
          else (case sockets_get socks (the (channel m)) of
                  Undefined \<Rightarrow> [ConsoleWarn ''channel not understood for message'' message]
                | Inherited \<Rightarrow>
                    (let props = jMessage_properties hdr m
                     in case Message_throws j props of
                          Some err \<Rightarrow> [MessageNew props, ConsoleError ''Error sending message'' err m]
                        | None \<Rightarrow> [MessageNew props,
                                   ConsoleError ''Error sending message'' send_not_a_function m])
                | Socket socket \<Rightarrow>
                    (let props = jMessage_properties hdr m
                     in case Message_throws j props of
                          Some err \<Rightarrow> [MessageNew props, ConsoleError ''Error sending message'' err m]
                        | None \<Rightarrow>
                            (case send_throws j (tr @ [MessageNew props]) socket props of
                               Some err \<Rightarrow> [MessageNew props, Send socket props,
                                            ConsoleError ''Error sending message'' err m]
                             | None \<Rightarrow> [MessageNew props, Send socket props]))))"

text \<open>The \<^verbatim>\<open>complete\<close> handler of \<^verbatim>\<open>outgoingMessages\<close>.\<close>

definition outgoing_complete :: "jmp \<Rightarrow> sockets \<Rightarrow> event list" where
  "outgoing_complete j socks =
     concat (map (\<lambda>(name, socket).
                    RemoveAllListeners socket # (if has_close j socket then [Close socket] else []))
                 socks)"

subsection \<open>Inbound path\<close>

text \<open>The function mapped over the \<^verbatim>\<open>"message"\<close> events of the socket held under \<open>name\<close>.\<close>

definition incoming_map :: "string \<Rightarrow> jsobj \<Rightarrow> jsobj" where
  "incoming_map name body =
     (let msg = body(''channel'' \<mapsto> JStr name)
      in msg(''idents'' := None))"

text \<open>
  What the merged source emits when \<open>socket\<close> emits a \<^verbatim>\<open>"message"\<close> event with \<open>body\<close>:
  one message from each per-name stream listening on that socket.
\<close>

definition incomingMessages :: "sockets \<Rightarrow> sock \<Rightarrow> jsobj \<Rightarrow> jsobj list" where
  "incomingMessages socks socket body =
     map (\<lambda>(name, s). incoming_map name body) (filter (\<lambda>(name, s). s = socket) socks)"

subsection \<open>The duplex channel\<close>

text \<open>
  The subject returned to the caller. \<^verbatim>\<open>Subscriber.create\<close> gives a subscriber that stops
  at its first \<^verbatim>\<open>complete\<close>: once \<open>isStopped\<close>, \<^verbatim>\<open>next\<close> and \<^verbatim>\<open>complete\<close> reach no handler.
  The source is shared by reference counting (\<^verbatim>\<open>publish(), refCount()\<close>): the first consumer
  attaches a \<^verbatim>\<open>"message"\<close> listener to every socket, and the last one to unsubscribe
  detaches it.
\<close>

record Channels =
  isStopped :: bool
  refCount :: nat
  trace :: "event list"

definition subject_next ::
  "jmp \<Rightarrow> sockets \<Rightarrow> HeaderFiller \<Rightarrow> JupyterMessage option \<Rightarrow> Channels \<Rightarrow> Channels" where
  "subject_next j socks hdr message st =
     (if isStopped st then st
      else st\<lparr>trace := trace st @ outgoing_next j socks hdr (trace st) message\<rparr>)"

definition subject_complete :: "jmp \<Rightarrow> sockets \<Rightarrow> Channels \<Rightarrow> Channels" where
  "subject_complete j socks st =
     (if isStopped st then st
      else st\<lparr>isStopped := True, trace := trace st @ outgoing_complete j socks\<rparr>)"


definition subject_unsubscribe :: "sockets \<Rightarrow> Channels \<Rightarrow> Channels" where
  "subject_unsubscribe socks st =
     (if refCount st = 0 then st
      else st\<lparr>refCount := refCount st - 1,
              trace := trace st @
                (if refCount st = 1 then map (\<lambda>(name, socket). SocketOff socket ''message'') socks
                 else [])\<rparr>)"

text \<open>The channel as \<^verbatim>\<open>createMainChannelFromSockets\<close> returns it, after the calls \<open>tr\<close>.\<close>

definition createMainChannelFromSockets :: "event list \<Rightarrow> Channels" where
  "createMainChannelFromSockets tr = \<lparr> isStopped = False, refCount = 0, trace = tr \<rparr>"

section \<open>Observations on a sequence of calls\<close>

text \<open>The invocations of \<^verbatim>\<open>socket.send\<close> in a sequence of calls, in order.\<close>

fun sends :: "event list \<Rightarrow> (sock \<times> MessageProperties) list" where
  "sends [] = []"
| "sends (Send socket jMessage # es) = (socket, jMessage) # sends es"
| "sends (e # es) = sends es"

text \<open>The calls that reach a socket or the \<^verbatim>\<open>jmp\<close> module: everything but console output.\<close>

fun is_console :: "event \<Rightarrow> bool" where
  "is_console (ConsoleWarn text message) = True"
| "is_console (ConsoleError text err message) = True"
| "is_console e = False"

definition collaborator_calls :: "event list \<Rightarrow> event list" where
  "collaborator_calls tr = filter (\<lambda>e. \<not> is_console e) tr"

text \<open>
  Reading a numeral back: the value of a string of decimal digits, and what it is for a
  string to be the decimal numeral of an integer (a minus sign for a negative one, then
  digits without a leading zero that denote its magnitude).
\<close>

definition digit_value :: "char \<Rightarrow> nat" where
  "digit_value c = of_char c - 48"

definition decimal_value :: "string \<Rightarrow> nat" where
  "decimal_value s = foldl (\<lambda>a c. 10 * a + digit_value c) 0 s"

definition is_digits :: "string \<Rightarrow> bool" where
  "is_digits d =
     (case d of
        [] \<Rightarrow> False
      | c # ds \<Rightarrow> (c = CHR ''0'' \<longrightarrow> ds = []) \<and> list_all (\<lambda>x. x \<in> set ''0123456789'') d)"

definition is_decimal_numeral :: "int \<Rightarrow> string \<Rightarrow> bool" where
  "is_decimal_numeral i s =
     (if i < 0
      then (case s of
              [] \<Rightarrow> False
            | c # d \<Rightarrow> c = CHR ''-'' \<and> is_digits d \<and> decimal_value d = nat (- i))
      else is_digits s \<and> decimal_value s = nat i)"

section \<open>Example inputs\<close>

text \<open>
  A configuration over tcp or ipc with the given shell, control, stdin and iopub ports; one
  with four different ports; a configuration with one port replaced; and one in which the
  iopub port is absent and the shell port is zero.
\<close>

definition ports_config ::
  "string \<Rightarrow> string \<Rightarrow> number option \<Rightarrow> number option \<Rightarrow> number option \<Rightarrow> number option
     \<Rightarrow> JupyterConnectionInfo" where
  "ports_config t host sh co st io =
     \<lparr> version = 5, iopub_port = io, shell_port = sh, stdin_port = st, control_port = co,
       signature_scheme = ''hmac-sha256'', hb_port = Some (Integer 5559),
       ip = host, key = ''secret'', transport = t \<rparr>"

definition example_config :: "string \<Rightarrow> string \<Rightarrow> JupyterConnectionInfo" where
  "example_config t host =
     ports_config t host (Some (Integer 5555)) (Some (Integer 5556)) (Some (Integer 5557))
       (Some (Integer 5558))"

fun with_port :: "ChannelName \<Rightarrow> number option \<Rightarrow> JupyterConnectionInfo \<Rightarrow> JupyterConnectionInfo" where
  "with_port iopub v config = config\<lparr>iopub_port := v\<rparr>"
| "with_port stdin v config = config\<lparr>stdin_port := v\<rparr>"
| "with_port shell v config = config\<lparr>shell_port := v\<rparr>"
| "with_port control v config = config\<lparr>control_port := v\<rparr>"

definition no_ports :: JupyterConnectionInfo where
  "no_ports =
     ports_config ''tcp'' ''127.0.0.1'' (Some (Integer 0)) (Some (Integer 0)) None None"

text \<open>A \<^verbatim>\<open>jmp\<close> module in which nothing throws, and one whose first socket rejects every send.\<close>

definition quiet_jmp :: jmp where
  "quiet_jmp =
     \<lparr> Socket_throws = (\<lambda>zmqType scheme k. None), Message_throws = (\<lambda>props. None),
       send_throws = (\<lambda>tr socket jMessage. None), has_close = (\<lambda>socket. True) \<rparr>"

definition failing_shell_jmp :: jmp where
  "failing_shell_jmp =
     \<lparr> Socket_throws = (\<lambda>zmqType scheme k. None), Message_throws = (\<lambda>props. None),
       send_throws = (\<lambda>tr socket jMessage. if socket = 0 then Some (Error ''send failed'') else None),
       has_close = (\<lambda>socket. True) \<rparr>"

text \<open>The object \<^verbatim>\<open>createSockets\<close> returns: four keys, four different sockets.\<close>

definition four_sockets :: sockets where
  "four_sockets = [(''shell'', 0), (''control'', 1), (''stdin'', 2), (''iopub'', 3)]"

definition example_header :: HeaderFiller where
  "example_header = \<lparr> session = ''session-1'', username = ''kernel-user'' \<rparr>"

definition example_message :: "string option \<Rightarrow> JupyterMessage" where
  "example_message c =
     \<lparr> header = [''msg_id'' \<mapsto> JStr ''m1'', ''session'' \<mapsto> JStr ''mine'', ''username'' \<mapsto> JStr ''me''],
       parent_header = JObj [],
       content = JObj [(''foo'', JNum 1)],
       metadata = JObj [],
       buffers = JUndefined,
       channel = c \<rparr>"

definition example_body :: jsobj where
  "example_body =
     [''idents'' \<mapsto> JArr [JStr ''routing-id''],
      ''header'' \<mapsto> JObj [(''msg_type'', JStr ''status'')],
      ''content'' \<mapsto> JObj [(''execution_state'', JStr ''idle'')]]"

section \<open>Properties of the address resolver\<close>

text \<open>
  \<open>nat_toString\<close> writes the decimal numeral: digits only, no leading zero, and the value
  read back is the number written.
\<close>

lemma digit_char_cases:
  assumes "d < 10"
  shows "digit_value (digit_char d) = d"
    and "digit_char d \<in> set ''0123456789''"
    and "digit_char d = CHR ''0'' \<longrightarrow> d = 0"
proof -
  from assms have "d \<in> {0, 1, 2, 3, 4, 5, 6, 7, 8, 9}" by auto
  then show "digit_value (digit_char d) = d"
    and "digit_char d \<in> set ''0123456789''"
    and "digit_char d = CHR ''0'' \<longrightarrow> d = 0"
    by (auto simp add: digit_value_def digit_char_def)
qed

lemma decimal_value_snoc: "decimal_value (s @ [c]) = 10 * decimal_value s + digit_value c"
  by (simp add: decimal_value_def)

lemma nat_toString_nonempty: "nat_toString n \<noteq> []"
  by (simp add: nat_toString.simps [of n])

lemma decimal_value_nat_toString: "decimal_value (nat_toString n) = n"
proof (induction n rule: nat_toString.induct)
  case (1 n)
  show ?case
  proof (cases "n < 10")
    case True
    then show ?thesis
      by (simp add: nat_toString.simps [of n] decimal_value_def digit_char_cases(1))
  next
    case False
    with 1 show ?thesis
      by (simp add: nat_toString.simps [of n] decimal_value_snoc digit_char_cases(1))
  qed
qed

lemma nat_toString_digits: "list_all (\<lambda>x. x \<in> set ''0123456789'') (nat_toString n)"
proof (induction n rule: nat_toString.induct)
  case (1 n)
  show ?case
  proof (cases "n < 10")
    case True
    then show ?thesis
      using digit_char_cases(2) [of n] by (simp add: nat_toString.simps [of n])
  next
    case False
    with 1 show ?thesis
      using digit_char_cases(2) [of "n mod 10"] by (simp add: nat_toString.simps [of n])
  qed
qed

lemma nat_toString_leading_zero: "hd (nat_toString n) = CHR ''0'' \<Longrightarrow> n = 0"
proof (induction n rule: nat_toString.induct)
  case (1 n)
  show ?case
  proof (cases "n < 10")
    case True
    with "1.prems" show ?thesis
      using digit_char_cases(3) [of n] by (simp add: nat_toString.simps [of n])
  next
    case False
    with "1.prems" have "hd (nat_toString (n div 10)) = CHR ''0''"
      by (simp add: nat_toString.simps [of n] nat_toString_nonempty)
    with 1 False have "n div 10 = 0" by simp
    with False show ?thesis by simp
  qed
qed

lemma nat_toString_0: "nat_toString 0 = ''0''"
  by (simp add: nat_toString.simps digit_char_def)

lemma is_digits_nat_toString: "is_digits (nat_toString n)"
proof (cases "nat_toString n")
  case Nil
  then show ?thesis by (simp add: nat_toString_nonempty)
next
  case (Cons c ds)
  have "c = CHR ''0'' \<longrightarrow> ds = []"
  proof
    assume "c = CHR ''0''"
    with Cons have "hd (nat_toString n) = CHR ''0''" by simp
    then have "n = 0" by (rule nat_toString_leading_zero)
    with Cons show "ds = []" by (simp add: nat_toString_0)
  qed
  moreover have "list_all (\<lambda>x. x \<in> set ''0123456789'') (c # ds)"
    using nat_toString_digits [of n] Cons by simp
  ultimately show ?thesis
    using Cons by (simp add: is_digits_def)
qed

lemma is_decimal_numeral_int_toString: "is_decimal_numeral i (int_toString i)"
  by (simp add: is_decimal_numeral_def int_toString_def is_digits_nat_toString
        decimal_value_nat_toString)

lemma int_toString_examples:
  "int_toString 5555 = ''5555''"
  "int_toString 5556 = ''5556''"
  "int_toString 5557 = ''5557''"
  "int_toString 5558 = ''5558''"
  "int_toString 65535 = ''65535''"
  "int_toString (- 1) = ''-1''"
  by (simp_all add: int_toString_def nat_toString.simps digit_char_def)

lemma formConnectionString_cases:
  "formConnectionString config chan =
     (case channel_port config chan of
        None \<Rightarrow> Inl (port_not_found chan)
      | Some n \<Rightarrow> if number_falsy n then Inl (port_not_found chan)
                  else Inr (transport config @ ''://'' @ ip config
                              @ (if transport config = ''tcp'' then '':'' else ''-'')
                              @ number_toString n))"
  by (simp add: formConnectionString_def port_falsy_def split: option.split)

lemma number_falsy_iff: "number_falsy n = (n = Integer 0 \<or> n = NaN)"
  by (cases n) simp_all

text \<open>
  C4, as stated, fails for a port that is present and not zero but is \<^verbatim>\<open>NaN\<close>: \<^verbatim>\<open>!port\<close>
  holds of it, and the resolver throws instead of returning an address.
\<close>

theorem formConnectionString_no_address_for_NaN:
  "iopub_port (with_port iopub (Some NaN) (example_config ''ipc'' ''/tmp/x'')) = Some NaN
 \<and> NaN \<noteq> Integer 0
 \<and> formConnectionString (with_port iopub (Some NaN) (example_config ''ipc'' ''/tmp/x'')) iopub
     = Inl (Error (''Port not found for channel '' @ [CHR 0x22] @ ''iopub'' @ [CHR 0x22]))"
  by (simp add: formConnectionString_cases example_config_def ports_config_def port_not_found_def)

text \<open>
  C4, amended. When the port property of the requested channel holds a number that is
  neither zero nor \<^verbatim>\<open>NaN\<close>, the resolver returns \<open>tcp://\<close> followed by the ip, a colon and
  the port for the tcp transport, and \<open>ipc://\<close> followed by the ip, a hyphen and the port
  for the ipc transport. An integer port is written as its decimal numeral.
\<close>

theorem formConnectionString_address:
  assumes "(case chan of iopub \<Rightarrow> iopub_port config | stdin \<Rightarrow> stdin_port config
            | shell \<Rightarrow> shell_port config | control \<Rightarrow> control_port config) = Some n"
      and "n \<noteq> Integer 0" and "n \<noteq> NaN"
  shows "(transport config = ''tcp'' \<longrightarrow>
            formConnectionString config chan
              = Inr (''tcp://'' @ ip config @ '':'' @ number_toString n))
       \<and> (transport config = ''ipc'' \<longrightarrow>
            formConnectionString config chan
              = Inr (''ipc://'' @ ip config @ ''-'' @ number_toString n))
       \<and> (\<forall>p. n = Integer p \<longrightarrow> is_decimal_numeral (sint p) (number_toString n))
       \<and> (n = Infinity \<longrightarrow> number_toString n = ''Infinity'')
       \<and> (n = NegInfinity \<longrightarrow> number_toString n = ''-Infinity'')"
  using assms
  by (cases chan)
     (simp_all add: formConnectionString_cases number_falsy_iff is_decimal_numeral_int_toString)

text \<open>
  The two addresses the specification names (ip 127.0.0.1 and port 5555 over tcp, ip /tmp/x
  and port 5555 over ipc), and the addresses of the other channels, each with its own port.
\<close>

theorem formConnectionString_address_witness:
  "formConnectionString (example_config ''tcp'' ''127.0.0.1'') shell = Inr ''tcp://127.0.0.1:5555''
 \<and> formConnectionString (example_config ''tcp'' ''127.0.0.1'') control = Inr ''tcp://127.0.0.1:5556''
 \<and> formConnectionString (example_config ''tcp'' ''127.0.0.1'') stdin = Inr ''tcp://127.0.0.1:5557''
 \<and> formConnectionString (example_config ''tcp'' ''127.0.0.1'') iopub = Inr ''tcp://127.0.0.1:5558''
 \<and> formConnectionString (example_config ''ipc'' ''/tmp/x'') shell = Inr ''ipc:///tmp/x-5555''
 \<and> formConnectionString (example_config ''ipc'' ''/tmp/x'') iopub = Inr ''ipc:///tmp/x-5558''
 \<and> formConnectionString (with_port control (Some (Integer 65535)) (example_config ''tcp'' ''localhost''))
       control = Inr ''tcp://localhost:65535''"
proof -
  let ?tcp = "example_config ''tcp'' ''127.0.0.1''"
  let ?ipc = "example_config ''ipc'' ''/tmp/x''"
  let ?hi = "with_port control (Some (Integer 65535)) (example_config ''tcp'' ''localhost'')"
  have t: "transport ?tcp = ''tcp''" "ip ?tcp = ''127.0.0.1''"
          "transport ?ipc = ''ipc''" "ip ?ipc = ''/tmp/x''"
          "transport ?hi = ''tcp''" "ip ?hi = ''localhost''"
    by (simp_all add: example_config_def ports_config_def)
  have nz: "(5555 :: 54 word) \<noteq> 0" "(5556 :: 54 word) \<noteq> 0" "(5557 :: 54 word) \<noteq> 0"
           "(5558 :: 54 word) \<noteq> 0" "(65535 :: 54 word) \<noteq> 0"
    by simp_all
  have "formConnectionString ?tcp shell = Inr ''tcp://127.0.0.1:5555''"
    using formConnectionString_address [where chan = shell and config = "?tcp" and n = "Integer 5555"] t nz
    by (simp add: example_config_def ports_config_def int_toString_examples)
  moreover have "formConnectionString ?tcp control = Inr ''tcp://127.0.0.1:5556''"
    using formConnectionString_address [where chan = control and config = "?tcp" and n = "Integer 5556"] t nz
    by (simp add: example_config_def ports_config_def int_toString_examples)
  moreover have "formConnectionString ?tcp stdin = Inr ''tcp://127.0.0.1:5557''"
    using formConnectionString_address [where chan = stdin and config = "?tcp" and n = "Integer 5557"] t nz
    by (simp add: example_config_def ports_config_def int_toString_examples)
  moreover have "formConnectionString ?tcp iopub = Inr ''tcp://127.0.0.1:5558''"
    using formConnectionString_address [where chan = iopub and config = "?tcp" and n = "Integer 5558"] t nz
    by (simp add: example_config_def ports_config_def int_toString_examples)
  moreover have "formConnectionString ?ipc shell = Inr ''ipc:///tmp/x-5555''"
    using formConnectionString_address [where chan = shell and config = "?ipc" and n = "Integer 5555"] t nz
    by (simp add: example_config_def ports_config_def int_toString_examples)
  moreover have "formConnectionString ?ipc iopub = Inr ''ipc:///tmp/x-5558''"
    using formConnectionString_address [where chan = iopub and config = "?ipc" and n = "Integer 5558"] t nz
    by (simp add: example_config_def ports_config_def int_toString_examples)
  moreover have "formConnectionString ?hi control = Inr ''tcp://localhost:65535''"
    using formConnectionString_address [where chan = control and config = "?hi" and n = "Integer 65535"] t nz
    by (simp add: example_config_def ports_config_def int_toString_examples)
  ultimately show ?thesis by blast
qed

text \<open>
  C5, as stated, fails in its only-if half. A stdin port that is \<^verbatim>\<open>NaN\<close> is present, is not
  zero and is not \<^verbatim>\<open>undefined\<close>, and the resolver throws for it: \<^verbatim>\<open>!port\<close> holds of every
  falsy number.
\<close>

theorem formConnectionString_throws_for_NaN:
  "stdin_port (with_port stdin (Some NaN) (example_config ''tcp'' ''127.0.0.1'')) = Some NaN
 \<and> formConnectionString (with_port stdin (Some NaN) (example_config ''tcp'' ''127.0.0.1'')) stdin
     = Inl (Error (''Port not found for channel '' @ [CHR 0x22] @ ''stdin'' @ [CHR 0x22]))"
  by (simp add: formConnectionString_cases example_config_def ports_config_def port_not_found_def)

text \<open>
  C5, amended. For each of the four channels, the resolver throws exactly when the port
  property of that channel is absent (or undefined), zero or \<^verbatim>\<open>NaN\<close>; the error thrown says
  that the port was not found for that channel; in every other case the resolver returns
  an address.
\<close>

theorem formConnectionString_throws_iff:
  "(let port = (case chan of iopub \<Rightarrow> iopub_port config | stdin \<Rightarrow> stdin_port config
                | shell \<Rightarrow> shell_port config | control \<Rightarrow> control_port config);
        falsy = (port = None \<or> port = Some (Integer 0) \<or> port = Some NaN)
    in (formConnectionString config chan = Inl (port_not_found chan)) = falsy
     \<and> (\<exists>url. formConnectionString config chan = Inr url) = (\<not> falsy)
     \<and> (\<forall>err. formConnectionString config chan = Inl err \<longrightarrow> err = port_not_found chan))
 \<and> port_not_found chan
     = Error (''Port not found for channel '' @ [CHR 0x22]
              @ (case chan of iopub \<Rightarrow> ''iopub'' | stdin \<Rightarrow> ''stdin'' | shell \<Rightarrow> ''shell''
                 | control \<Rightarrow> ''control'') @ [CHR 0x22])"
  by (cases chan)
     (simp_all add: Let_def formConnectionString_cases number_falsy_iff port_not_found_def
        split: option.split)


text \<open>
  Four configurations, each with the port of one channel absent, zero or \<^verbatim>\<open>NaN\<close>: the
  resolver throws for that channel and resolves another.
\<close>

theorem formConnectionString_throws_iff_witness:
  "formConnectionString (with_port iopub None (example_config ''tcp'' ''127.0.0.1'')) iopub
     = Inl (Error (''Port not found for channel '' @ [CHR 0x22] @ ''iopub'' @ [CHR 0x22]))
 \<and> (\<exists>url. formConnectionString (with_port iopub None (example_config ''tcp'' ''127.0.0.1'')) shell = Inr url)
 \<and> formConnectionString (with_port shell (Some (Integer 0)) (example_config ''tcp'' ''127.0.0.1'')) shell
     = Inl (Error (''Port not found for channel '' @ [CHR 0x22] @ ''shell'' @ [CHR 0x22]))
 \<and> (\<exists>url. formConnectionString (with_port shell (Some (Integer 0)) (example_config ''tcp'' ''127.0.0.1'')) iopub = Inr url)
 \<and> formConnectionString (with_port stdin (Some NaN) (example_config ''tcp'' ''127.0.0.1'')) stdin
     = Inl (Error (''Port not found for channel '' @ [CHR 0x22] @ ''stdin'' @ [CHR 0x22]))
 \<and> (\<exists>url. formConnectionString (with_port stdin (Some NaN) (example_config ''tcp'' ''127.0.0.1'')) control = Inr url)
 \<and> formConnectionString (with_port control None (example_config ''tcp'' ''127.0.0.1'')) control
     = Inl (Error (''Port not found for channel '' @ [CHR 0x22] @ ''control'' @ [CHR 0x22]))
 \<and> (\<exists>url. formConnectionString (with_port control None (example_config ''tcp'' ''127.0.0.1'')) stdin = Inr url)"
proof -
  have "formConnectionString (with_port iopub None (example_config ''tcp'' ''127.0.0.1'')) iopub
     = Inl (Error (''Port not found for channel '' @ [CHR 0x22] @ ''iopub'' @ [CHR 0x22]))"
    using formConnectionString_throws_iff [where chan = iopub and config = "with_port iopub None (example_config ''tcp'' ''127.0.0.1'')"]
    by (simp add: Let_def example_config_def ports_config_def)
  moreover have "\<exists>url. formConnectionString (with_port iopub None (example_config ''tcp'' ''127.0.0.1'')) shell = Inr url"
    using formConnectionString_throws_iff [where chan = shell and config = "with_port iopub None (example_config ''tcp'' ''127.0.0.1'')"]
    by (simp add: Let_def example_config_def ports_config_def)
  moreover have "formConnectionString (with_port shell (Some (Integer 0)) (example_config ''tcp'' ''127.0.0.1'')) shell
     = Inl (Error (''Port not found for channel '' @ [CHR 0x22] @ ''shell'' @ [CHR 0x22]))"
    using formConnectionString_throws_iff [where chan = shell and config = "with_port shell (Some (Integer 0)) (example_config ''tcp'' ''127.0.0.1'')"]
    by (simp add: Let_def example_config_def ports_config_def)
  moreover have "\<exists>url. formConnectionString (with_port shell (Some (Integer 0)) (example_config ''tcp'' ''127.0.0.1'')) iopub = Inr url"
    using formConnectionString_throws_iff [where chan = iopub and config = "with_port shell (Some (Integer 0)) (example_config ''tcp'' ''127.0.0.1'')"]
    by (simp add: Let_def example_config_def ports_config_def)
  moreover have "formConnectionString (with_port stdin (Some NaN) (example_config ''tcp'' ''127.0.0.1'')) stdin
     = Inl (Error (''Port not found for channel '' @ [CHR 0x22] @ ''stdin'' @ [CHR 0x22]))"
    using formConnectionString_throws_iff [where chan = stdin and config = "with_port stdin (Some NaN) (example_config ''tcp'' ''127.0.0.1'')"]
    by (simp add: Let_def example_config_def ports_config_def)
  moreover have "\<exists>url. formConnectionString (with_port stdin (Some NaN) (example_config ''tcp'' ''127.0.0.1'')) control = Inr url"
    using formConnectionString_throws_iff [where chan = control and config = "with_port stdin (Some NaN) (example_config ''tcp'' ''127.0.0.1'')"]
    by (simp add: Let_def example_config_def ports_config_def)
  moreover have "formConnectionString (with_port control None (example_config ''tcp'' ''127.0.0.1'')) control
     = Inl (Error (''Port not found for channel '' @ [CHR 0x22] @ ''control'' @ [CHR 0x22]))"
    using formConnectionString_throws_iff [where chan = control and config = "with_port control None (example_config ''tcp'' ''127.0.0.1'')"]
    by (simp add: Let_def example_config_def ports_config_def)
  moreover have "\<exists>url. formConnectionString (with_port control None (example_config ''tcp'' ''127.0.0.1'')) stdin = Inr url"
    using formConnectionString_throws_iff [where chan = stdin and config = "with_port control None (example_config ''tcp'' ''127.0.0.1'')"]
    by (simp add: Let_def example_config_def ports_config_def)
  ultimately show ?thesis by blast
qed

section \<open>Properties of the socket factory\<close>

lemma quiet_jmp_simps:
  "Socket_throws quiet_jmp zmqType scheme k = None"
  "Message_throws quiet_jmp props = None"
  "send_throws quiet_jmp tr socket props = None"
  "has_close quiet_jmp socket"
  by (simp_all add: quiet_jmp_def)

text \<open>
  \<^verbatim>\<open>createSocket\<close> on a complete configuration: the socket is constructed, given its
  identity, monitored and connected to the resolved address.
\<close>

lemma createSocket_connects:
  "createSocket quiet_jmp shell ''kernel-1'' (example_config ''tcp'' ''127.0.0.1'') []
     = ([SocketNew 0 ''dealer'' ''sha256'' ''secret'', SetIdentity 0 ''kernel-1'',
         SocketOn 0 ''connect'', Monitor 0, Connect 0 ''tcp://127.0.0.1:5555''], Inr 0)"
  by (simp add: createSocket_def formConnectionString_cases example_config_def ports_config_def
        quiet_jmp_simps fresh_sock_def verifiedConnect_def int_toString_examples scheme_of_def)

text \<open>
  \<^verbatim>\<open>createSockets\<close> on the same configuration makes the four sockets of \<open>four_sockets\<close>.
\<close>

lemma createSockets_begin_four:
  "snd (createSockets_begin quiet_jmp (example_config ''tcp'' ''127.0.0.1'') ''kernel-1'' [])
     = Inr four_sockets"
  by (simp add: createSockets_begin_def createSocket_def formConnectionString_cases
        example_config_def ports_config_def quiet_jmp_simps fresh_sock_def verifiedConnect_def
        scheme_of_def four_sockets_def)

text \<open>
  C3, as stated, fails. With the shell port zero, \<^verbatim>\<open>createSocket\<close> throws the
  port-not-found error, but only after it has constructed the transport socket and assigned
  its identity: \<^verbatim>\<open>new jmp.Socket\<close> precedes the call of \<^verbatim>\<open>formConnectionString\<close>.
\<close>

theorem createSocket_constructs_before_throwing:
  "channel_port no_ports shell = Some (Integer 0)
 \<and> createSocket quiet_jmp shell ''kernel-1'' no_ports []
     = ([SocketNew 0 ''dealer'' ''sha256'' ''secret'', SetIdentity 0 ''kernel-1''],
        Inl (port_not_found shell))"
  by (simp add: createSocket_def formConnectionString_cases no_ports_def ports_config_def
        quiet_jmp_simps fresh_sock_def scheme_of_def)

text \<open>
  C3, amended. When the requested channel's port is absent, zero or \<^verbatim>\<open>NaN\<close> and the transport
  accepts the construction of the socket, \<^verbatim>\<open>createSocket\<close> throws the port-not-found error
  synchronously, having constructed exactly one transport socket and assigned its identity,
  and having registered no listener, started no monitoring and made no connection.
\<close>

theorem createSocket_port_missing:
  assumes "channel_port config chan = None \<or> channel_port config chan = Some (Integer 0)
             \<or> channel_port config chan = Some NaN"
      and "Socket_throws j (ZMQType_frontend chan) (scheme_of config) (key config)
             = None"
  shows "createSocket j chan identity config tr
           = (tr @ [SocketNew (fresh_sock tr) (ZMQType_frontend chan)
                      (scheme_of config) (key config),
                    SetIdentity (fresh_sock tr) identity],
              Inl (port_not_found chan))"
  using assms by (auto simp add: createSocket_def formConnectionString_cases Let_def)

text \<open>
  The iopub socket of a configuration without an iopub port, after the shell socket was made.
\<close>

theorem createSocket_port_missing_witness:
  "createSocket quiet_jmp iopub ''kernel-1'' no_ports
     [SocketNew 0 ''dealer'' ''sha256'' ''secret'', SetIdentity 0 ''kernel-1'']
     = ([SocketNew 0 ''dealer'' ''sha256'' ''secret'', SetIdentity 0 ''kernel-1'',
         SocketNew 1 ''sub'' ''sha256'' ''secret'', SetIdentity 1 ''kernel-1''],
        Inl (port_not_found iopub))"
proof -
  have a: "channel_port no_ports iopub = None \<or> channel_port no_ports iopub = Some (Integer 0)
             \<or> channel_port no_ports iopub = Some NaN"
    by (simp add: no_ports_def ports_config_def)
  have b: "Socket_throws quiet_jmp (ZMQType_frontend iopub) (scheme_of no_ports)
             (key no_ports) = None"
    by (simp add: quiet_jmp_simps)
  from createSocket_port_missing [OF a b, of "''kernel-1''"
         "[SocketNew 0 ''dealer'' ''sha256'' ''secret'', SetIdentity 0 ''kernel-1'']"]
  show ?thesis
    by (simp add: fresh_sock_def no_ports_def ports_config_def scheme_of_def)
qed

section \<open>Properties of the outbound path\<close>

lemma sends_append: "sends (xs @ ys) = sends xs @ sends ys"
  by (induction xs rule: sends.induct) simp_all

lemma channel_string_nonempty: "channel_string chan \<noteq> []"
  by (cases chan) simp_all

lemma subject_next_open:
  "\<not> isStopped st \<Longrightarrow>
     subject_next j socks hdr message st
       = st\<lparr>trace := trace st @ outgoing_next j socks hdr (trace st) message\<rparr>"
  by (simp add: subject_next_def)

lemma sockets_get_own: "map_of socks name = Some socket \<Longrightarrow> sockets_get socks name = Socket socket"
  by (simp add: sockets_get_def)

lemma outgoing_next_routed:
  assumes "channel message = Some c" and "c \<noteq> []" and "map_of socks c = Some socket"
  shows "outgoing_next j socks hdr tr (Some message) =
           (let props = jMessage_properties hdr message
            in case Message_throws j props of
                 Some err \<Rightarrow> [MessageNew props, ConsoleError ''Error sending message'' err message]
               | None \<Rightarrow>
                   (case send_throws j (tr @ [MessageNew props]) socket props of
                      Some err \<Rightarrow> [MessageNew props, Send socket props,
                                   ConsoleError ''Error sending message'' err message]
                    | None \<Rightarrow> [MessageNew props, Send socket props]))"
  using assms by (simp add: outgoing_next_def channel_falsy_def sockets_get_own)

lemma sends_outgoing_next_routed:
  assumes "channel message = Some c" and "c \<noteq> []" and "map_of socks c = Some socket"
  shows "sends (outgoing_next j socks hdr tr (Some message)) =
           (if Message_throws j (jMessage_properties hdr message) = None
            then [(socket, jMessage_properties hdr message)] else [])"
  by (simp add: outgoing_next_routed [OF assms] Let_def split: option.split)

lemma example_shell_routed:
  "channel (example_message (Some ''shell'')) = Some (channel_string shell)"
  "map_of four_sockets (channel_string shell) = Some 0"
  "\<not> isStopped (createMainChannelFromSockets tr)"
  by (simp_all add: example_message_def four_sockets_def createMainChannelFromSockets_def)

lemma example_shell_sends:
  "sends (outgoing_next quiet_jmp four_sockets example_header [] (Some (example_message (Some ''shell''))))
     = [(0, jMessage_properties example_header (example_message (Some ''shell'')))]"
  by (simp add: outgoing_next_def channel_falsy_def example_message_def four_sockets_def
        sockets_get_def quiet_jmp_def Let_def)

lemma example_control_routed:
  "channel (example_message (Some ''control'')) = Some ''control''"
  "''control'' \<noteq> []"
  "map_of four_sockets ''control'' = Some 1"
  by (simp_all add: example_message_def four_sockets_def)

lemma example_unroutable:
  "case channel (example_message (Some ''hb'')) of None \<Rightarrow> True
     | Some c \<Rightarrow> sockets_get four_sockets c = Undefined"
  "case channel (example_message None) of None \<Rightarrow> True
     | Some c \<Rightarrow> sockets_get four_sockets c = Undefined"
  by (simp_all add: example_message_def four_sockets_def sockets_get_def Object_prototype_def)

lemma failing_shell_jmp_simps:
  "Message_throws failing_shell_jmp props = None"
  "send_throws failing_shell_jmp tr socket props
     = (if socket = 0 then Some (Error ''send failed'') else None)"
  by (simp_all add: failing_shell_jmp_def)

text \<open>
  C1. On an open channel, a message tagged with one of the four channel names, whose socket
  is held under that name, causes exactly one send on that socket (none when the message
  constructor throws), and the header of the message handed to it has the \<open>session\<close> and
  \<open>username\<close> of the multiplexer's session header, whatever the caller's header held.
\<close>

theorem sink_session_header:
  assumes "channel message = Some (channel_string chan)"
      and "map_of socks (channel_string chan) = Some socket"
      and "\<not> isStopped st"
  shows "sends (trace (subject_next j socks hdr (Some message) st))
           = sends (trace st) @
               (if Message_throws j (jMessage_properties hdr message) = None
                then [(socket, jMessage_properties hdr message)] else [])
       \<and> header (jMessage_properties hdr message) ''session'' = Some (JStr (session hdr))
       \<and> header (jMessage_properties hdr message) ''username'' = Some (JStr (username hdr))"
proof (intro conjI)
  show "sends (trace (subject_next j socks hdr (Some message) st))
          = sends (trace st) @ (if Message_throws j (jMessage_properties hdr message) = None
                                then [(socket, jMessage_properties hdr message)] else [])"
    using assms
    by (simp add: subject_next_open sends_append
          sends_outgoing_next_routed [OF assms(1) channel_string_nonempty assms(2)])
  show "header (jMessage_properties hdr message) ''session'' = Some (JStr (session hdr))"
    by (simp add: jMessage_properties_def spread_HeaderFiller_def map_add_def)
  show "header (jMessage_properties hdr message) ''username'' = Some (JStr (username hdr))"
    by (simp add: jMessage_properties_def spread_HeaderFiller_def map_add_def)
qed

text \<open>
  A shell message whose own header says session \<open>mine\<close> is sent with session \<open>session-1\<close>.
\<close>

theorem sink_session_header_witness:
  "sends (trace (subject_next quiet_jmp four_sockets example_header
                   (Some (example_message (Some ''shell''))) (createMainChannelFromSockets [])))
     = [(0, jMessage_properties example_header (example_message (Some ''shell'')))]
 \<and> header (jMessage_properties example_header (example_message (Some ''shell''))) ''session''
     = Some (JStr ''session-1'')
 \<and> header (jMessage_properties example_header (example_message (Some ''shell''))) ''username''
     = Some (JStr ''kernel-user'')
 \<and> header (example_message (Some ''shell'')) ''session'' = Some (JStr ''mine'')"
  using sink_session_header [where j = quiet_jmp and hdr = example_header,
          OF example_shell_routed(1) example_shell_routed(2) example_shell_routed(3) [of "[]"]]
  by (simp add: quiet_jmp_def example_header_def createMainChannelFromSockets_def
        example_message_def)

text \<open>
  C9. Every message the handler hands to a socket's send goes to the socket held under the
  message's channel tag and has the parent header, content, metadata and buffers of the
  caller's message; its header differs from the caller's in \<open>session\<close> and \<open>username\<close> at most.
\<close>

theorem sink_frame:
  "\<forall>(socket, jMessage) \<in> set (sends (outgoing_next j socks hdr tr (Some message))).
      (\<exists>c. channel message = Some c \<and> map_of socks c = Some socket)
    \<and> parent_header jMessage = parent_header message
    \<and> content jMessage = content message
    \<and> metadata jMessage = metadata message
    \<and> buffers jMessage = buffers message
    \<and> (\<forall>k. k \<noteq> ''session'' \<and> k \<noteq> ''username'' \<longrightarrow> header jMessage k = header message k)"
  by (auto simp add: outgoing_next_def Let_def jMessage_properties_def spread_HeaderFiller_def
        map_add_def channel_falsy_def sockets_get_def
        split: option.splits if_splits property.splits)

text \<open>
  The shell message of the example keeps its content \<open>{foo: 1}\<close> and its \<open>msg_id\<close>.
\<close>

theorem sink_frame_witness:
  "sends (outgoing_next quiet_jmp four_sockets example_header []
            (Some (example_message (Some ''shell''))))
     = [(0, jMessage_properties example_header (example_message (Some ''shell'')))]
 \<and> content (jMessage_properties example_header (example_message (Some ''shell'')))
     = JObj [(''foo'', JNum 1)]
 \<and> parent_header (jMessage_properties example_header (example_message (Some ''shell''))) = JObj []
 \<and> metadata (jMessage_properties example_header (example_message (Some ''shell''))) = JObj []
 \<and> buffers (jMessage_properties example_header (example_message (Some ''shell''))) = JUndefined
 \<and> header (jMessage_properties example_header (example_message (Some ''shell''))) ''msg_id''
     = Some (JStr ''m1'')"
proof -
  let ?P = "jMessage_properties example_header (example_message (Some ''shell''))"
  have "(0, ?P) \<in> set (sends (outgoing_next quiet_jmp four_sockets example_header []
                                 (Some (example_message (Some ''shell'')))))"
    by (simp add: example_shell_sends)
  with sink_frame [of quiet_jmp four_sockets example_header "[]" "example_message (Some ''shell'')"]
  have "parent_header ?P = parent_header (example_message (Some ''shell''))
      \<and> content ?P = content (example_message (Some ''shell''))
      \<and> metadata ?P = metadata (example_message (Some ''shell''))
      \<and> buffers ?P = buffers (example_message (Some ''shell''))
      \<and> (\<forall>k. k \<noteq> ''session'' \<and> k \<noteq> ''username''
             \<longrightarrow> header ?P k = header (example_message (Some ''shell'')) k)"
    by blast
  then show ?thesis
    by (simp add: example_shell_sends) (simp add: example_message_def)
qed

text \<open>
  A message whose channel tag is missing, or names no property of the sockets object at all,
  is dropped with one console warning: no send is invoked, no call reaches any
  collaborator, the channel is not stopped and its consumer count is unchanged, and the
  next value presented to the sink is handled by the handler as usual.
\<close>

lemma sink_warns_unknown_tag:
  assumes "case channel message of None \<Rightarrow> True | Some c \<Rightarrow> sockets_get socks c = Undefined"
      and "\<not> isStopped st"
  shows "subject_next j socks hdr (Some message) st
           = st\<lparr>trace := trace st @
                 [ConsoleWarn (if channel_falsy (channel message)
                               then ''message sent without a channel''
                               else ''channel not understood for message'') (Some message)]\<rparr>
       \<and> sends (trace (subject_next j socks hdr (Some message) st)) = sends (trace st)
       \<and> collaborator_calls (trace (subject_next j socks hdr (Some message) st))
           = collaborator_calls (trace st)
       \<and> isStopped (subject_next j socks hdr (Some message) st) = False
       \<and> refCount (subject_next j socks hdr (Some message) st) = refCount st
       \<and> (\<forall>m2. subject_next j socks hdr m2 (subject_next j socks hdr (Some message) st)
                 = (subject_next j socks hdr (Some message) st)
                     \<lparr>trace := trace (subject_next j socks hdr (Some message) st) @
                        outgoing_next j socks hdr
                          (trace (subject_next j socks hdr (Some message) st)) m2\<rparr>)"
proof -
  have ev: "outgoing_next j socks hdr (trace st) (Some message)
              = [ConsoleWarn (if channel_falsy (channel message)
                              then ''message sent without a channel''
                              else ''channel not understood for message'') (Some message)]"
    using assms(1)
    by (cases "channel message") (simp_all add: outgoing_next_def channel_falsy_def)
  have st': "subject_next j socks hdr (Some message) st
               = st\<lparr>trace := trace st @
                     [ConsoleWarn (if channel_falsy (channel message)
                                   then ''message sent without a channel''
                                   else ''channel not understood for message'') (Some message)]\<rparr>"
    using assms(2) by (simp add: subject_next_open ev)
  have open': "\<not> isStopped (subject_next j socks hdr (Some message) st)"
    using assms(2) by (simp add: st')
  show ?thesis
    using assms(2) subject_next_open [OF open']
    by (simp add: st' sends_append collaborator_calls_def)
qed

text \<open>
  A message tagged \<open>hb\<close> and one without a tag are dropped with a warning; a shell message
  sent afterwards reaches the shell socket.
\<close>

lemma sink_warns_unknown_tag_example:
  "subject_next quiet_jmp four_sockets example_header (Some (example_message (Some ''hb'')))
     (createMainChannelFromSockets [])
     = \<lparr> isStopped = False, refCount = 0,
         trace = [ConsoleWarn ''channel not understood for message''
                    (Some (example_message (Some ''hb'')))] \<rparr>
 \<and> subject_next quiet_jmp four_sockets example_header (Some (example_message None))
     (createMainChannelFromSockets [])
     = \<lparr> isStopped = False, refCount = 0,
         trace = [ConsoleWarn ''message sent without a channel'' (Some (example_message None))] \<rparr>
 \<and> sends (trace (subject_next quiet_jmp four_sockets example_header
                    (Some (example_message (Some ''shell'')))
                    (subject_next quiet_jmp four_sockets example_header
                       (Some (example_message (Some ''hb''))) (createMainChannelFromSockets []))))
     = [(0, jMessage_properties example_header (example_message (Some ''shell'')))]"
proof -
  let ?st0 = "createMainChannelFromSockets []"
  let ?hb = "subject_next quiet_jmp four_sockets example_header
               (Some (example_message (Some ''hb''))) ?st0"
  note hb = sink_warns_unknown_tag [where j = quiet_jmp and hdr = example_header,
              OF example_unroutable(1) example_shell_routed(3) [of "[]"]]
  note nc = sink_warns_unknown_tag [where j = quiet_jmp and hdr = example_header,
              OF example_unroutable(2) example_shell_routed(3) [of "[]"]]
  have a: "?hb = \<lparr> isStopped = False, refCount = 0,
                    trace = [ConsoleWarn ''channel not understood for message''
                               (Some (example_message (Some ''hb'')))] \<rparr>"
    using hb by (simp add: createMainChannelFromSockets_def channel_falsy_def example_message_def)
  have b: "subject_next quiet_jmp four_sockets example_header (Some (example_message None)) ?st0
             = \<lparr> isStopped = False, refCount = 0,
                 trace = [ConsoleWarn ''message sent without a channel''
                            (Some (example_message None))] \<rparr>"
    using nc by (simp add: createMainChannelFromSockets_def channel_falsy_def example_message_def)
  from hb have "subject_next quiet_jmp four_sockets example_header
                  (Some (example_message (Some ''shell''))) ?hb
                = ?hb\<lparr>trace := trace ?hb @
                     outgoing_next quiet_jmp four_sockets example_header (trace ?hb)
                       (Some (example_message (Some ''shell'')))\<rparr>"
    by blast
  then have c: "sends (trace (subject_next quiet_jmp four_sockets example_header
                         (Some (example_message (Some ''shell''))) ?hb))
                  = [(0, jMessage_properties example_header (example_message (Some ''shell'')))]"
    by (simp add: a sends_append quiet_jmp_simps
          sends_outgoing_next_routed [OF example_shell_routed(1) channel_string_nonempty
            example_shell_routed(2)])
  from a b c show ?thesis by simp
qed

text \<open>
  Whatever the tag, a message whose tag is missing or is no own key of the sockets object
  reaches no socket and leaves the channel open.
\<close>

lemma sink_sends_nothing_without_socket:
  assumes "case channel message of None \<Rightarrow> True | Some c \<Rightarrow> map_of socks c = None"
      and "\<not> isStopped st"
  shows "sends (trace (subject_next j socks hdr (Some message) st)) = sends (trace st)
       \<and> isStopped (subject_next j socks hdr (Some message) st) = False
       \<and> refCount (subject_next j socks hdr (Some message) st) = refCount st"
  using assms
  by (auto simp add: subject_next_def outgoing_next_def sends_append sockets_get_def Let_def
        channel_falsy_def split: option.splits)

text \<open>
  C6 requires every message whose tag matches none of the sockets to be dropped with a
  warning, and the comment in the handler says that a message on a channel without a socket
  is warned about. The tag \<open>toString\<close> is no own key of the sockets object, but
  \<^verbatim>\<open>sockets["toString"]\<close> is the function inherited from \<^verbatim>\<open>Object.prototype\<close>, which is
  truthy: the handler skips the warning, constructs a \<^verbatim>\<open>jmp.Message\<close>, fails to call
  \<^verbatim>\<open>socket.send\<close> and logs the \<^verbatim>\<open>TypeError\<close> with \<^verbatim>\<open>console.error\<close>. No socket is reached and
  the channel stays open.
\<close>

theorem sink_logs_error_for_inherited_tag:
  "map_of four_sockets ''toString'' = None
 \<and> subject_next quiet_jmp four_sockets example_header (Some (example_message (Some ''toString'')))
     (createMainChannelFromSockets [])
     = \<lparr> isStopped = False, refCount = 0,
         trace = [MessageNew (jMessage_properties example_header
                                (example_message (Some ''toString''))),
                  ConsoleError ''Error sending message''
                    (TypeError ''socket.send is not a function'')
                    (example_message (Some ''toString''))] \<rparr>"
  by (simp add: subject_next_def createMainChannelFromSockets_def outgoing_next_def
        channel_falsy_def sockets_get_def Object_prototype_def four_sockets_def
        quiet_jmp_simps send_not_a_function_def Let_def)
    (simp add: example_message_def)

text \<open>
  C7. When the send on the matching socket throws, the error is logged on the console and
  nothing else happens: the channel is not stopped, and the next value presented to the sink
  is handled by the handler as usual.
\<close>

theorem sink_survives_send_error:
  assumes "channel message = Some c" and "c \<noteq> []" and "map_of socks c = Some socket"
      and "\<not> isStopped st"
      and "Message_throws j (jMessage_properties hdr message) = None"
      and "send_throws j (trace st @ [MessageNew (jMessage_properties hdr message)]) socket
             (jMessage_properties hdr message) = Some err"
  shows "subject_next j socks hdr (Some message) st
           = st\<lparr>trace := trace st @
                 [MessageNew (jMessage_properties hdr message),
                  Send socket (jMessage_properties hdr message),
                  ConsoleError ''Error sending message'' err message]\<rparr>
       \<and> isStopped (subject_next j socks hdr (Some message) st) = False
       \<and> (\<forall>m2. subject_next j socks hdr m2 (subject_next j socks hdr (Some message) st)
                 = (subject_next j socks hdr (Some message) st)
                     \<lparr>trace := trace (subject_next j socks hdr (Some message) st) @
                        outgoing_next j socks hdr
                          (trace (subject_next j socks hdr (Some message) st)) m2\<rparr>)"
proof -
  have st': "subject_next j socks hdr (Some message) st
               = st\<lparr>trace := trace st @
                     [MessageNew (jMessage_properties hdr message),
                      Send socket (jMessage_properties hdr message),
                      ConsoleError ''Error sending message'' err message]\<rparr>"
    using assms(4-6)
    by (simp add: subject_next_open outgoing_next_routed [OF assms(1-3)] Let_def)
  have open': "\<not> isStopped (subject_next j socks hdr (Some message) st)"
    using assms(4) by (simp add: st')
  show ?thesis
    using assms(4) subject_next_open [OF open'] by (simp add: st')
qed

text \<open>
  The shell socket rejects the send; the control message that follows is sent.
\<close>

theorem sink_survives_send_error_witness:
  "trace (subject_next failing_shell_jmp four_sockets example_header
            (Some (example_message (Some ''control'')))
            (subject_next failing_shell_jmp four_sockets example_header
               (Some (example_message (Some ''shell''))) (createMainChannelFromSockets [])))
     = [MessageNew (jMessage_properties example_header (example_message (Some ''shell''))),
        Send 0 (jMessage_properties example_header (example_message (Some ''shell''))),
        ConsoleError ''Error sending message'' (Error ''send failed'')
          (example_message (Some ''shell'')),
        MessageNew (jMessage_properties example_header (example_message (Some ''control''))),
        Send 1 (jMessage_properties example_header (example_message (Some ''control'')))]
 \<and> isStopped (subject_next failing_shell_jmp four_sockets example_header
                (Some (example_message (Some ''shell''))) (createMainChannelFromSockets []))
     = False"
proof -
  let ?st0 = "createMainChannelFromSockets []"
  let ?P = "jMessage_properties example_header (example_message (Some ''shell''))"
  let ?st1 = "subject_next failing_shell_jmp four_sockets example_header
                (Some (example_message (Some ''shell''))) ?st0"
  have thrown: "send_throws failing_shell_jmp (trace ?st0 @ [MessageNew ?P]) 0 ?P
                  = Some (Error ''send failed'')"
    by (simp add: failing_shell_jmp_simps)
  note r = sink_survives_send_error [where j = failing_shell_jmp and hdr = example_header,
             OF example_shell_routed(1) channel_string_nonempty example_shell_routed(2)
                example_shell_routed(3) [of "[]"] failing_shell_jmp_simps(1) thrown]
  from r have a: "trace ?st1 = [MessageNew ?P, Send 0 ?P,
                    ConsoleError ''Error sending message'' (Error ''send failed'')
                      (example_message (Some ''shell''))]"
    by (simp add: createMainChannelFromSockets_def)
  from r have b: "isStopped ?st1 = False"
    by blast
  from r have "subject_next failing_shell_jmp four_sockets example_header
                 (Some (example_message (Some ''control''))) ?st1
               = ?st1\<lparr>trace := trace ?st1 @
                    outgoing_next failing_shell_jmp four_sockets example_header (trace ?st1)
                      (Some (example_message (Some ''control'')))\<rparr>"
    by blast
  then have c: "trace (subject_next failing_shell_jmp four_sockets example_header
                         (Some (example_message (Some ''control''))) ?st1)
                  = trace ?st1 @
                    [MessageNew (jMessage_properties example_header (example_message (Some ''control''))),
                     Send 1 (jMessage_properties example_header (example_message (Some ''control'')))]"
    by (simp add: outgoing_next_routed [OF example_control_routed] failing_shell_jmp_simps Let_def)
  from a b c show ?thesis by simp
qed

text \<open>
  C10. On an open channel, a value that is null or undefined is dropped with the warning
  that a message without a channel tag gets; nothing is thrown, no send is invoked, the
  channel is not stopped, and the next value is handled as usual.
\<close>

theorem sink_drops_null:
  assumes "\<not> isStopped st"
  shows "subject_next j socks hdr None st
           = st\<lparr>trace := trace st @ [ConsoleWarn ''message sent without a channel'' None]\<rparr>
       \<and> (channel message = None \<longrightarrow>
            subject_next j socks hdr (Some message) st
              = st\<lparr>trace := trace st @
                    [ConsoleWarn ''message sent without a channel'' (Some message)]\<rparr>)
       \<and> isStopped (subject_next j socks hdr None st) = False
       \<and> sends (trace (subject_next j socks hdr None st)) = sends (trace st)
       \<and> (\<forall>m2. subject_next j socks hdr m2 (subject_next j socks hdr None st)
                 = (subject_next j socks hdr None st)
                     \<lparr>trace := trace (subject_next j socks hdr None st) @
                        outgoing_next j socks hdr (trace (subject_next j socks hdr None st)) m2\<rparr>)"
proof -
  have st': "subject_next j socks hdr None st
               = st\<lparr>trace := trace st @ [ConsoleWarn ''message sent without a channel'' None]\<rparr>"
    using assms by (simp add: subject_next_open outgoing_next_def)
  have open': "\<not> isStopped (subject_next j socks hdr None st)"
    using assms by (simp add: st')
  show ?thesis
    using assms subject_next_open [OF open']
    by (simp add: st' sends_append) (simp add: subject_next_open outgoing_next_def channel_falsy_def)
qed

text \<open>
  A null value is dropped; a shell message sent afterwards reaches the shell socket.
\<close>

theorem sink_drops_null_witness:
  "subject_next quiet_jmp four_sockets example_header None (createMainChannelFromSockets [])
     = \<lparr> isStopped = False, refCount = 0,
         trace = [ConsoleWarn ''message sent without a channel'' None] \<rparr>
 \<and> sends (trace (subject_next quiet_jmp four_sockets example_header
                    (Some (example_message (Some ''shell'')))
                    (subject_next quiet_jmp four_sockets example_header None
                       (createMainChannelFromSockets []))))
     = [(0, jMessage_properties example_header (example_message (Some ''shell'')))]"
proof -
  let ?st0 = "createMainChannelFromSockets []"
  let ?st1 = "subject_next quiet_jmp four_sockets example_header None ?st0"
  note r = sink_drops_null [where j = quiet_jmp and hdr = example_header
             and socks = four_sockets, OF example_shell_routed(3) [of "[]"]]
  from r have a: "?st1 = \<lparr> isStopped = False, refCount = 0,
                    trace = [ConsoleWarn ''message sent without a channel'' None] \<rparr>"
    by (simp add: createMainChannelFromSockets_def)
  from r have "subject_next quiet_jmp four_sockets example_header
                 (Some (example_message (Some ''shell''))) ?st1
               = ?st1\<lparr>trace := trace ?st1 @
                    outgoing_next quiet_jmp four_sockets example_header (trace ?st1)
                      (Some (example_message (Some ''shell'')))\<rparr>"
    by blast
  then have b: "sends (trace (subject_next quiet_jmp four_sockets example_header
                         (Some (example_message (Some ''shell''))) ?st1))
                  = [(0, jMessage_properties example_header (example_message (Some ''shell'')))]"
    by (simp add: a sends_append quiet_jmp_simps
          sends_outgoing_next_routed [OF example_shell_routed(1) channel_string_nonempty
            example_shell_routed(2)])
  from a b show ?thesis by simp
qed

section \<open>Properties of teardown\<close>

lemma count_outgoing_complete_Close:
  assumes "\<forall>s \<in> set (map snd socks). has_close j s"
  shows "count_list (outgoing_complete j socks) (Close socket) = count_list (map snd socks) socket"
  using assms by (induction socks) (auto simp add: outgoing_complete_def)

lemma count_outgoing_complete_RemoveAllListeners:
  "count_list (outgoing_complete j socks) (RemoveAllListeners socket)
     = count_list (map snd socks) socket"
  by (induction socks) (auto simp add: outgoing_complete_def)

lemma count_list_distinct_member:
  "distinct xs \<Longrightarrow> x \<in> set xs \<Longrightarrow> count_list xs x = 1"
  by (induction xs) auto

lemma four_sockets_wellformed:
  "distinct (map snd four_sockets)"
  "\<forall>socket \<in> set (map snd four_sockets). has_close quiet_jmp socket"
  by (simp_all add: four_sockets_def quiet_jmp_simps)

lemma count_SocketOff:
  "count_list (map (\<lambda>(name, socket). SocketOff socket ev) socks) (Close s) = 0"
  "count_list (map (\<lambda>(name, socket). SocketOff socket ev) socks) (RemoveAllListeners s) = 0"
  by (induction socks) auto

lemma subject_unsubscribe_counts:
  "count_list (trace (subject_unsubscribe socks st)) (Close s) = count_list (trace st) (Close s)"
  "count_list (trace (subject_unsubscribe socks st)) (RemoveAllListeners s)
     = count_list (trace st) (RemoveAllListeners s)"
  by (simp_all add: subject_unsubscribe_def count_SocketOff)

text \<open>
  Completion of the sink. On an open channel whose sockets are distinct objects with a
  \<^verbatim>\<open>close\<close> method, every owned socket has all its listeners removed once and is closed
  once; completing again changes nothing, and neither does a value sent afterwards.
\<close>

lemma sink_complete_closes_once:
  assumes "distinct (map snd socks)"
      and "\<forall>socket \<in> set (map snd socks). has_close j socket"
      and "\<not> isStopped st"
  shows "(\<forall>socket \<in> set (map snd socks).
            count_list (trace (subject_complete j socks st)) (Close socket)
              = count_list (trace st) (Close socket) + 1
          \<and> count_list (trace (subject_complete j socks st)) (RemoveAllListeners socket)
              = count_list (trace st) (RemoveAllListeners socket) + 1)
       \<and> subject_complete j socks (subject_complete j socks st) = subject_complete j socks st
       \<and> (\<forall>message. subject_next j socks hdr message (subject_complete j socks st)
                       = subject_complete j socks st)"
proof (intro conjI ballI allI)
  fix socket
  assume mem: "socket \<in> set (map snd socks)"
  have once: "count_list (map snd socks) socket = 1"
    using assms(1) mem by (rule count_list_distinct_member)
  show "count_list (trace (subject_complete j socks st)) (Close socket)
          = count_list (trace st) (Close socket) + 1"
    using assms(3)
    by (simp add: subject_complete_def count_outgoing_complete_Close [OF assms(2)] once)
  show "count_list (trace (subject_complete j socks st)) (RemoveAllListeners socket)
          = count_list (trace st) (RemoveAllListeners socket) + 1"
    using assms(3)
    by (simp add: subject_complete_def count_outgoing_complete_RemoveAllListeners once)
next
  show "subject_complete j socks (subject_complete j socks st) = subject_complete j socks st"
    by (simp add: subject_complete_def)
next
  fix message
  show "subject_next j socks hdr message (subject_complete j socks st)
          = subject_complete j socks st"
    using assms(3) by (simp add: subject_complete_def subject_next_def)
qed

text \<open>
  Completing the channel over the four sockets of the example removes the listeners of each
  and closes each, once; completing twice leaves the same calls.
\<close>

lemma sink_complete_closes_once_example:
  "trace (subject_complete quiet_jmp four_sockets (createMainChannelFromSockets []))
     = [RemoveAllListeners 0, Close 0, RemoveAllListeners 1, Close 1,
        RemoveAllListeners 2, Close 2, RemoveAllListeners 3, Close 3]
 \<and> count_list (trace (subject_complete quiet_jmp four_sockets (createMainChannelFromSockets [])))
      (Close 3) = 1
 \<and> trace (subject_complete quiet_jmp four_sockets
            (subject_complete quiet_jmp four_sockets (createMainChannelFromSockets [])))
     = trace (subject_complete quiet_jmp four_sockets (createMainChannelFromSockets []))"
proof -
  note r = sink_complete_closes_once [where j = quiet_jmp and hdr = example_header,
             OF four_sockets_wellformed example_shell_routed(3) [of "[]"]]
  have m: "3 \<in> set (map snd four_sockets)"
    by (simp add: four_sockets_def)
  from r m have a: "count_list (trace (subject_complete quiet_jmp four_sockets
                                   (createMainChannelFromSockets []))) (Close 3)
                = count_list (trace (createMainChannelFromSockets [])) (Close 3) + 1"
    by blast
  from r have b: "subject_complete quiet_jmp four_sockets
            (subject_complete quiet_jmp four_sockets (createMainChannelFromSockets []))
          = subject_complete quiet_jmp four_sockets (createMainChannelFromSockets [])"
    by blast
  have c: "trace (subject_complete quiet_jmp four_sockets (createMainChannelFromSockets []))
     = [RemoveAllListeners 0, Close 0, RemoveAllListeners 1, Close 1,
        RemoveAllListeners 2, Close 2, RemoveAllListeners 3, Close 3]"
    by (simp add: subject_complete_def createMainChannelFromSockets_def outgoing_complete_def
          four_sockets_def quiet_jmp_simps)
  from a b c show ?thesis
    by (simp add: createMainChannelFromSockets_def)
qed


section \<open>Properties of the inbound path\<close>

lemma filter_socket_singleton:
  "distinct (map snd socks) \<Longrightarrow> (name, socket) \<in> set socks \<Longrightarrow>
     filter (\<lambda>(n, s). s = socket) socks = [(name, socket)]"
proof (induction socks)
  case Nil
  then show ?case by simp
next
  case (Cons p socks)
  obtain n s where p: "p = (n, s)" by (cases p)
  show ?case
  proof (cases "s = socket")
    case True
    with Cons.prems p have "socket \<notin> snd ` set socks" by simp
    then have "filter (\<lambda>(n, s). s = socket) socks = []"
      by (auto simp add: filter_empty_conv image_iff)
    moreover from Cons.prems p True have "n = name"
      by (auto simp add: image_iff)
    ultimately show ?thesis using p True by simp
  next
    case False
    with Cons p show ?thesis by auto
  qed
qed

text \<open>
  C8. When the sockets are distinct objects, a message event on the socket held under a name
  is emitted as exactly one message, whose \<open>channel\<close> is that name, which has no \<open>idents\<close>
  property, and whose other properties are those received.
\<close>

theorem incoming_tagged_and_stripped:
  assumes "(name, socket) \<in> set socks" and "distinct (map snd socks)"
  shows "incomingMessages socks socket body = [incoming_map name body]
       \<and> incoming_map name body ''channel'' = Some (JStr name)
       \<and> incoming_map name body ''idents'' = None
       \<and> (\<forall>k. k \<noteq> ''channel'' \<and> k \<noteq> ''idents'' \<longrightarrow> incoming_map name body k = body k)"
  using assms
  by (simp add: incomingMessages_def filter_socket_singleton incoming_map_def)

text \<open>
  A status message on the iopub socket loses its \<open>idents\<close> and keeps its content.
\<close>

theorem incoming_tagged_and_stripped_witness:
  "incomingMessages four_sockets 3 example_body = [incoming_map ''iopub'' example_body]
 \<and> incoming_map ''iopub'' example_body ''channel'' = Some (JStr ''iopub'')
 \<and> incoming_map ''iopub'' example_body ''idents'' = None
 \<and> example_body ''idents'' = Some (JArr [JStr ''routing-id''])
 \<and> incoming_map ''iopub'' example_body ''content''
     = Some (JObj [(''execution_state'', JStr ''idle'')])"
proof -
  have m: "(''iopub'', 3) \<in> set four_sockets"
    by (simp add: four_sockets_def)
  from incoming_tagged_and_stripped [OF m four_sockets_wellformed(1), of example_body]
  show ?thesis
    by (simp add: example_body_def)
qed

end
